theory Spec2Isabelle
  imports Main
begin

section \<open>The chat gateway of piggy-server (src/chat/chat.gateway.ts)\<close>

text \<open>
  The gateway is one class, \<open>ChatGateway\<close>, holding two JavaScript \<open>Map\<close>s
  (\<open>rooms\<close> and \<open>users\<close>) and one handler per inbound socket event. Each handler is
  embedded as a function from the handler's arguments and the gateway state to the new
  state and the list of transport calls the handler makes, in program order.
  \<open>console.log\<close> calls are left out: they neither read nor write gateway state and send
  nothing to a client. The field \<open>groupMessages\<close> is declared but never assigned or
  read, so it is not part of the state. The source file holds a second, shorter variant
  of the class, without \<open>deleteRoom\<close>, \<open>leaveRoom\<close> and \<open>fetchRooms\<close>; the handlers
  it shares with the first have the same statements.
\<close>

subsection \<open>Data\<close>

text \<open>The types \<open>Room\<close> and \<open>User\<close> of the source; all fields are strings.\<close>

record Room =
  roomId :: string
  roomName :: string

record User =
  userId :: string
  userName :: string
  roomId :: string

text \<open>
  A JavaScript \<open>Map\<close> keeps its entries in insertion order: \<open>set\<close> on a present key
  replaces the value where the entry stands, \<open>set\<close> on an absent key appends an entry,
  \<open>delete\<close> removes the entry. It is embedded as an association list.
\<close>

type_synonym 'v jsmap = "(string \<times> 'v) list"

fun map_get :: "string \<Rightarrow> 'v jsmap \<Rightarrow> 'v option" where
  "map_get k [] = None"
| "map_get k ((k', v) # m) = (if k' = k then Some v else map_get k m)"

definition map_has :: "string \<Rightarrow> 'v jsmap \<Rightarrow> bool" where
  "map_has k m = (map_get k m \<noteq> None)"

fun map_set :: "string \<Rightarrow> 'v \<Rightarrow> 'v jsmap \<Rightarrow> 'v jsmap" where
  "map_set k v [] = [(k, v)]"
| "map_set k v ((k', v') # m) =
     (if k' = k then (k, v) # m else (k', v') # map_set k v m)"

fun map_delete :: "string \<Rightarrow> 'v jsmap \<Rightarrow> 'v jsmap" where
  "map_delete k [] = []"
| "map_delete k ((k', v) # m) =
     (if k' = k then map_delete k m else (k', v) # map_delete k m)"

definition map_values :: "'v jsmap \<Rightarrow> 'v list" where
  "map_values m = map snd m"

text \<open>The keys of a \<open>Map\<close> are pairwise different by construction.\<close>

definition map_ok :: "'v jsmap \<Rightarrow> bool" where
  "map_ok m = distinct (map fst m)"

text \<open>The state of a gateway object, and the state the constructor builds.\<close>

record gateway =
  rooms :: "Room jsmap"
  users :: "User list jsmap"

definition init_gateway :: gateway where
  "init_gateway = \<lparr> rooms = [], users = [] \<rparr>"

subsection \<open>Transport calls\<close>

text \<open>
  What a handler asks of socket.io: \<open>client.join(r)\<close>, and \<open>emit\<close> on one of four
  targets: \<open>client\<close> (the requester alone), \<open>client.to(r)\<close> (the group of \<open>r\<close> without the
  requester), \<open>this.server.to(r)\<close> (the whole group of \<open>r\<close>), \<open>this.server\<close> (every
  connected client).
\<close>

datatype target =
    ToClient string
  | ToRoomExcept string string
  | ToRoom string
  | ToAll

datatype payload =
    PRoom Room
  | PRooms "Room list"
  | PText string
  | PUsers "User list"
  | PNewMessage string string
  | PRoomDeleted string

text \<open>
  \<open>PNewMessage u m\<close> is the object \<open>{ userId: u, message: m }\<close> and \<open>PRoomDeleted m\<close> the
  object \<open>{ message: m }\<close>. In \<open>ToRoomExcept r c\<close> the room is \<open>r\<close> and the excluded
  connection \<open>c\<close>.
\<close>

datatype effect =
    JoinGroup string string
  | Emit target string payload

subsection \<open>Rendering a number in a template literal\<close>

text \<open>
  \<open>Date.now()\<close> is an integer number of milliseconds; a template literal renders an
  integer of that size in decimal, with a leading minus sign when negative.
\<close>

definition digit_char :: "nat \<Rightarrow> char" where
  "digit_char d = ''0123456789'' ! d"

fun nat_digits :: "nat \<Rightarrow> string" where
  "nat_digits n =
     (if n < 10 then [digit_char n] else nat_digits (n div 10) @ [digit_char (n mod 10)])"

declare nat_digits.simps [simp del]

definition number_to_string :: "int \<Rightarrow> string" where
  "number_to_string i =
     (if i < 0 then CHR ''-'' # nat_digits (nat (- i)) else nat_digits (nat i))"

subsection \<open>The handlers\<close>

text \<open>
  \<open>createRoom\<close>: the clock reading \<open>now\<close> is the value \<open>Date.now()\<close> returns in this
  call, \<open>client\<close> is \<open>client.id\<close>.
\<close>

definition createRoom :: "int \<Rightarrow> string \<Rightarrow> string \<Rightarrow> gateway \<Rightarrow> gateway \<times> effect list" where
  "createRoom now name client g =
     (let rid = ''room'' @ number_to_string now;
          room = \<lparr> Room.roomId = rid, roomName = name \<rparr>;
          g' = g \<lparr> rooms := map_set rid room (rooms g) \<rparr>
      in (g',
          [JoinGroup client rid,
           Emit (ToClient client) ''roomCreated'' (PRoom room),
           Emit ToAll ''rooms'' (PRooms (map_values (rooms g')))]))"

text \<open>The expression \<open>this.users.get(roomId) || []\<close>: an array is truthy, also when empty.\<close>

definition users_or_empty :: "string \<Rightarrow> gateway \<Rightarrow> User list" where
  "users_or_empty rid g = (case map_get rid (users g) of Some us \<Rightarrow> us | None \<Rightarrow> [])"

definition room_missing :: "string \<Rightarrow> string \<Rightarrow> effect" where
  "room_missing client rid =
     Emit (ToClient client) ''error'' (PText (''Room '' @ rid @ '' does not exist''))"

definition joinRoom :: "string \<Rightarrow> string \<Rightarrow> string \<Rightarrow> gateway \<Rightarrow> gateway \<times> effect list" where
  "joinRoom uname rid client g =
     (if \<not> map_has rid (rooms g) then (g, [room_missing client rid])
      else
        let usersInRoom = users_or_empty rid g;
            userExists = list_ex (\<lambda>user. userName user = uname) usersInRoom
        in if userExists
           then (g, [Emit (ToClient client) ''error''
                       (PText (''User '' @ uname @ '' already exists in room '' @ rid))])
           else
             let user = \<lparr> userId = client, userName = uname, roomId = rid \<rparr>;
                 pushed = usersInRoom @ [user]
             in (g \<lparr> users := map_set rid pushed (users g) \<rparr>,
                 [JoinGroup client rid,
                  Emit (ToClient client) ''joinedRoom''
                    (PText (''Successfully joined room: '' @ rid)),
                  Emit (ToRoomExcept rid client) ''userJoined''
                    (PText (uname @ '' has joined the room'')),
                  Emit (ToRoom rid) ''totalUsers'' (PUsers pushed)]))"

definition deleteRoom :: "string \<Rightarrow> string \<Rightarrow> gateway \<Rightarrow> gateway \<times> effect list" where
  "deleteRoom rid client g =
     (if \<not> map_has rid (rooms g) then (g, [room_missing client rid])
      else
        let notice = Emit (ToRoom rid) ''roomDeleted''
                       (PRoomDeleted (''Room '' @ rid @ '' has been deleted.''));
            g1 = g \<lparr> rooms := map_delete rid (rooms g) \<rparr>;
            g2 = g1 \<lparr> users := map_delete rid (users g1) \<rparr>
        in (g2, [notice, Emit ToAll ''rooms'' (PRooms (map_values (rooms g2)))]))"

definition sendMessage ::
  "string \<Rightarrow> string \<Rightarrow> string \<Rightarrow> string \<Rightarrow> gateway \<Rightarrow> gateway \<times> effect list" where
  "sendMessage uname rid message client g =
     (if \<not> map_has rid (rooms g) then (g, [room_missing client rid])
      else (g, [Emit (ToRoom rid) ''newMessage'' (PNewMessage uname message)]))"

definition leaveRoom :: "string \<Rightarrow> string \<Rightarrow> string \<Rightarrow> gateway \<Rightarrow> gateway \<times> effect list" where
  "leaveRoom rid uname client g =
     (if \<not> map_has rid (rooms g) then (g, [room_missing client rid])
      else
        let usersInRoom = users_or_empty rid g;
            updatedUsers = filter (\<lambda>user. userId user \<noteq> client) usersInRoom
        in (g \<lparr> users := map_set rid updatedUsers (users g) \<rparr>,
            [Emit (ToRoomExcept rid client) ''userLeft'' (PText (uname @ '' has left the room'')),
             Emit (ToRoom rid) ''totalUsers'' (PUsers usersInRoom)]))"

text \<open>
  \<open>handleDisconnect\<close>: \<open>this.users.forEach\<close> visits the entries of the map in order. The
  callback only replaces the value of the entry it is visiting or deletes that entry, so
  the entries still to be visited are those the map had when the loop began.
  \<open>sweep_room\<close> is the callback, acting on the map and on the transport calls made so far.
\<close>

fun sweep_room ::
  "string \<Rightarrow> string \<times> User list \<Rightarrow> User list jsmap \<times> effect list
     \<Rightarrow> User list jsmap \<times> effect list" where
  "sweep_room client (rid, usersInRoom) (m, out) =
     (let updatedUsers = filter (\<lambda>user. userId user \<noteq> client) usersInRoom
      in if length updatedUsers > 0
         then (map_set rid updatedUsers m,
               out @ [Emit (ToRoom rid) ''totalUsers'' (PUsers updatedUsers)])
         else (map_delete rid m, out))"

fun for_each_room ::
  "string \<Rightarrow> User list jsmap \<Rightarrow> User list jsmap \<times> effect list
     \<Rightarrow> User list jsmap \<times> effect list" where
  "for_each_room client [] acc = acc"
| "for_each_room client (entry # entries) acc =
     for_each_room client entries (sweep_room client entry acc)"

definition handleDisconnect :: "string \<Rightarrow> gateway \<Rightarrow> gateway \<times> effect list" where
  "handleDisconnect client g =
     (case for_each_room client (users g) (users g, []) of
        (m, out) \<Rightarrow> (g \<lparr> users := m \<rparr>, out))"

definition triggerFetchAvailableRooms :: "gateway \<Rightarrow> gateway \<times> effect list" where
  "triggerFetchAvailableRooms g = (g, [Emit ToAll ''getRooms'' (PRooms (map_values (rooms g)))])"

subsection \<open>Sequences of events\<close>

text \<open>
  One constructor per handler, with the handler's arguments; \<open>CreateRoom\<close> also carries
  the clock reading of the call.
\<close>

datatype event =
    CreateRoom int string string
  | JoinRoom string string string
  | DeleteRoom string string
  | SendMessage string string string string
  | LeaveRoom string string string
  | Disconnect string
  | FetchRooms

fun dispatch :: "event \<Rightarrow> gateway \<Rightarrow> gateway \<times> effect list" where
  "dispatch (CreateRoom now name client) g = createRoom now name client g"
| "dispatch (JoinRoom uname rid client) g = joinRoom uname rid client g"
| "dispatch (DeleteRoom rid client) g = deleteRoom rid client g"
| "dispatch (SendMessage uname rid message client) g = sendMessage uname rid message client g"
| "dispatch (LeaveRoom rid uname client) g = leaveRoom rid uname client g"
| "dispatch (Disconnect client) g = handleDisconnect client g"
| "dispatch FetchRooms g = triggerFetchAvailableRooms g"

text \<open>Handling the events one at a time; the transport calls are collected in order.\<close>

fun run :: "event list \<Rightarrow> gateway \<Rightarrow> gateway \<times> effect list" where
  "run [] g = (g, [])"
| "run (e # es) g =
     (case dispatch e g of (g1, out1) \<Rightarrow>
        (case run es g1 of (g2, out2) \<Rightarrow> (g2, out1 @ out2)))"

text \<open>The clock readings of the \<open>createRoom\<close> calls of a sequence, in order.\<close>

fun clock_readings :: "event list \<Rightarrow> int list" where
  "clock_readings [] = []"
| "clock_readings (CreateRoom now name client # es) = now # clock_readings es"
| "clock_readings (e # es) = clock_readings es"

text \<open>
  The room identifiers generated in a run: those of the rooms announced to their creators
  by \<open>roomCreated\<close>, the one event that carries a single \<open>Room\<close>.
\<close>

fun generated_ids :: "effect list \<Rightarrow> string list" where
  "generated_ids [] = []"
| "generated_ids (Emit t name (PRoom room) # out) = Room.roomId room # generated_ids out"
| "generated_ids (x # out) = generated_ids out"

text \<open>The members of a list that belong to a connection, and the others.\<close>

definition members_of_connection :: "string \<Rightarrow> User list \<Rightarrow> User list" where
  "members_of_connection client us = filter (\<lambda>user. userId user = client) us"

definition remaining :: "string \<Rightarrow> User list \<Rightarrow> User list" where
  "remaining client us = filter (\<lambda>user. userId user \<noteq> client) us"

text \<open>What one visit of the disconnect loop sends.\<close>

definition sweep_notice :: "string \<Rightarrow> string \<times> User list \<Rightarrow> effect list" where
  "sweep_notice client entry =
     (if remaining client (snd entry) = [] then []
      else [Emit (ToRoom (fst entry)) ''totalUsers'' (PUsers (remaining client (snd entry)))])"

text \<open>The display names of every stored member list are pairwise different.\<close>

definition names_distinct :: "User list jsmap \<Rightarrow> bool" where
  "names_distinct m = (\<forall>entry \<in> set m. distinct (map userName (snd entry)))"

subsection \<open>Example states\<close>

text \<open>
  Two rooms; connection \<open>c1\<close> is \<open>alice\<close> in both, connection \<open>c2\<close> is \<open>bob\<close> in the
  first.
\<close>

definition example_gateway :: gateway where
  "example_gateway =
     \<lparr> rooms =
         [(''room1700000000000'', \<lparr> Room.roomId = ''room1700000000000'', roomName = ''Lobby'' \<rparr>),
          (''room1700000000001'', \<lparr> Room.roomId = ''room1700000000001'', roomName = ''Games'' \<rparr>)],
       users =
         [(''room1700000000000'',
            [\<lparr> userId = ''c1'', userName = ''alice'', roomId = ''room1700000000000'' \<rparr>,
             \<lparr> userId = ''c2'', userName = ''bob'', roomId = ''room1700000000000'' \<rparr>]),
          (''room1700000000001'',
            [\<lparr> userId = ''c1'', userName = ''alice'', roomId = ''room1700000000001'' \<rparr>])] \<rparr>"

definition example_events :: "event list" where
  "example_events =
     [CreateRoom 1700000000000 ''Lobby'' ''c1'',
      CreateRoom 1700000000001 ''Games'' ''c1'',
      JoinRoom ''alice'' ''room1700000000000'' ''c1'',
      JoinRoom ''alice'' ''room1700000000000'' ''c2'',
      JoinRoom ''bob'' ''room1700000000000'' ''c2'',
      JoinRoom ''alice'' ''room1700000000001'' ''c1'']"

text \<open>
  After the example events, connection \<open>c1\<close> joins the first room again, under another
  display name.
\<close>

definition rejoin_events :: "event list" where
  "rejoin_events = example_events @ [JoinRoom ''ally'' ''room1700000000000'' ''c1'']"

section \<open>Properties\<close>

subsection \<open>The map operations\<close>

lemma map_get_set: "map_get k' (map_set k v m) = (if k' = k then Some v else map_get k' m)"
  by (induction m) auto

lemma map_get_delete: "map_get k' (map_delete k m) = (if k' = k then None else map_get k' m)"
  by (induction m) auto

lemma map_get_None_iff: "map_get k m = None \<longleftrightarrow> k \<notin> fst ` set m"
  by (induction m) (auto split: if_splits)

lemma map_get_in_set: "map_get k m = Some v \<Longrightarrow> (k, v) \<in> set m"
  by (induction m) (auto split: if_splits)

lemma set_map_set: "set (map_set k v m) \<subseteq> insert (k, v) (set m)"
  by (induction m) (auto split: if_splits)

lemma set_map_delete: "set (map_delete k m) \<subseteq> set m"
  by (induction m) (auto split: if_splits)

subsection \<open>Evaluating the handlers on concrete input\<close>

lemmas handler_defs =
  createRoom_def joinRoom_def leaveRoom_def deleteRoom_def sendMessage_def
  handleDisconnect_def triggerFetchAvailableRooms_def users_or_empty_def room_missing_def
  map_has_def map_values_def number_to_string_def nat_digits.simps digit_char_def
  init_gateway_def Let_def

lemma example_gateway_reached: "fst (run example_events init_gateway) = example_gateway"
  by (simp add: example_events_def example_gateway_def handler_defs)

lemma example_lobby_exists: "map_has ''room1700000000000'' (rooms example_gateway)"
  by (simp add: example_gateway_def map_has_def)

lemma example_lobby_members:
  "users_or_empty ''room1700000000000'' example_gateway =
     [\<lparr> userId = ''c1'', userName = ''alice'', roomId = ''room1700000000000'' \<rparr>,
      \<lparr> userId = ''c2'', userName = ''bob'', roomId = ''room1700000000000'' \<rparr>]"
  by (simp add: example_gateway_def users_or_empty_def)

subsection \<open>Failing requests\<close>

text \<open>
  Claim C2. A request that fails leaves both maps as they were and sends one thing only,
  an \<open>error\<close> event to the requester: \<open>joinRoom\<close>, \<open>leaveRoom\<close>, \<open>sendMessage\<close> and
  \<open>deleteRoom\<close> on a room identifier that \<open>rooms\<close> does not hold, and \<open>joinRoom\<close> on a room
  that has a member of the requested display name. The handler returns the state it was
  given, and its list of transport calls is the single \<open>emit\<close> on the client.
\<close>

theorem failed_request_changes_nothing:
  "(\<not> map_has rid (rooms g) \<longrightarrow>
      joinRoom uname rid client g =
        (g, [Emit (ToClient client) ''error'' (PText (''Room '' @ rid @ '' does not exist''))])
    \<and> leaveRoom rid uname client g =
        (g, [Emit (ToClient client) ''error'' (PText (''Room '' @ rid @ '' does not exist''))])
    \<and> sendMessage uname rid message client g =
        (g, [Emit (ToClient client) ''error'' (PText (''Room '' @ rid @ '' does not exist''))])
    \<and> deleteRoom rid client g =
        (g, [Emit (ToClient client) ''error'' (PText (''Room '' @ rid @ '' does not exist''))]))
   \<and> (map_has rid' (rooms g) \<and> uname' \<in> userName ` set (users_or_empty rid' g) \<longrightarrow>
      joinRoom uname' rid' client g =
        (g, [Emit (ToClient client) ''error''
               (PText (''User '' @ uname' @ '' already exists in room '' @ rid'))]))"
  by (auto simp: joinRoom_def leaveRoom_def sendMessage_def deleteRoom_def room_missing_def
        list_ex_iff Let_def)

theorem failed_request_changes_nothing_witness:
  "\<not> map_has ''room7'' (rooms example_gateway)
   \<and> map_has ''room1700000000000'' (rooms example_gateway)
   \<and> ''bob'' \<in> userName ` set (users_or_empty ''room1700000000000'' example_gateway)
   \<and> joinRoom ''carol'' ''room7'' ''c3'' example_gateway =
        (example_gateway, [Emit (ToClient ''c3'') ''error'' (PText ''Room room7 does not exist'')])
   \<and> leaveRoom ''room7'' ''carol'' ''c3'' example_gateway =
        (example_gateway, [Emit (ToClient ''c3'') ''error'' (PText ''Room room7 does not exist'')])
   \<and> sendMessage ''carol'' ''room7'' ''hi'' ''c3'' example_gateway =
        (example_gateway, [Emit (ToClient ''c3'') ''error'' (PText ''Room room7 does not exist'')])
   \<and> deleteRoom ''room7'' ''c3'' example_gateway =
        (example_gateway, [Emit (ToClient ''c3'') ''error'' (PText ''Room room7 does not exist'')])
   \<and> joinRoom ''bob'' ''room1700000000000'' ''c3'' example_gateway =
        (example_gateway,
         [Emit (ToClient ''c3'') ''error''
            (PText ''User bob already exists in room room1700000000000'')])"
proof -
  have a: "\<not> map_has ''room7'' (rooms example_gateway)"
    by (simp add: example_gateway_def map_has_def)
  have c: "''bob'' \<in> userName ` set (users_or_empty ''room1700000000000'' example_gateway)"
    by (simp add: example_lobby_members)
  from a example_lobby_exists c
    failed_request_changes_nothing [of "''room7''" example_gateway "''carol''" "''c3''" "''hi''"
      "''room1700000000000''" "''bob''"]
  show ?thesis by simp
qed

subsection \<open>Joining\<close>

text \<open>
  Claim C4. When \<open>joinRoom\<close> succeeds, that is, the room is in \<open>rooms\<close> and none of its
  members has the requested display name, the member list of the room is one longer than
  before and holds a member whose \<open>userId\<close> is the requester's connection identity. The
  member list of a room is \<open>this.users.get(roomId) || []\<close>, before and after.
\<close>

theorem join_adds_one_member:
  assumes "map_has rid (rooms g)"
    and "uname \<notin> userName ` set (users_or_empty rid g)"
  shows "length (users_or_empty rid (fst (joinRoom uname rid client g)))
           = length (users_or_empty rid g) + 1
         \<and> (\<exists>member \<in> set (users_or_empty rid (fst (joinRoom uname rid client g))).
               userId member = client)"
  using assms
  by (auto simp: joinRoom_def users_or_empty_def map_get_set list_ex_iff Let_def
           split: option.splits)

theorem join_adds_one_member_witness:
  "map_has ''room1700000000000'' (rooms example_gateway)
   \<and> ''carol'' \<notin> userName ` set (users_or_empty ''room1700000000000'' example_gateway)
   \<and> length (users_or_empty ''room1700000000000''
        (fst (joinRoom ''carol'' ''room1700000000000'' ''c3'' example_gateway))) = 3
   \<and> (\<exists>member \<in> set (users_or_empty ''room1700000000000''
                        (fst (joinRoom ''carol'' ''room1700000000000'' ''c3'' example_gateway))).
         userId member = ''c3'')"
proof -
  have b: "''carol'' \<notin> userName ` set (users_or_empty ''room1700000000000'' example_gateway)"
    by (simp add: example_lobby_members)
  have c: "length (users_or_empty ''room1700000000000'' example_gateway) = 2"
    by (simp add: example_lobby_members)
  from join_adds_one_member [OF example_lobby_exists b, of "''c3''"] example_lobby_exists b c
  show ?thesis by simp
qed

subsection \<open>Leaving\<close>

text \<open>
  Claim C6. \<open>leaveRoom\<close> on a room that exists sends, as the \<open>totalUsers\<close> payload to the
  whole group of the room, the member list as it stood before the removal, while the list
  it stores under the room in \<open>users\<close> is the one after the removal.
\<close>

theorem leave_broadcasts_old_list:
  assumes "map_has rid (rooms g)"
  shows "snd (leaveRoom rid uname client g) =
           [Emit (ToRoomExcept rid client) ''userLeft'' (PText (uname @ '' has left the room'')),
            Emit (ToRoom rid) ''totalUsers'' (PUsers (users_or_empty rid g))]
         \<and> map_get rid (users (fst (leaveRoom rid uname client g))) =
             Some (remaining client (users_or_empty rid g))"
  using assms by (simp add: leaveRoom_def Let_def map_get_set remaining_def)

theorem leave_broadcasts_old_list_witness:
  "map_has ''room1700000000000'' (rooms example_gateway)
   \<and> snd (leaveRoom ''room1700000000000'' ''alice'' ''c1'' example_gateway) =
       [Emit (ToRoomExcept ''room1700000000000'' ''c1'') ''userLeft''
          (PText ''alice has left the room''),
        Emit (ToRoom ''room1700000000000'') ''totalUsers''
          (PUsers [\<lparr> userId = ''c1'', userName = ''alice'', roomId = ''room1700000000000'' \<rparr>,
                   \<lparr> userId = ''c2'', userName = ''bob'', roomId = ''room1700000000000'' \<rparr>])]
   \<and> map_get ''room1700000000000''
        (users (fst (leaveRoom ''room1700000000000'' ''alice'' ''c1'' example_gateway))) =
       Some [\<lparr> userId = ''c2'', userName = ''bob'', roomId = ''room1700000000000'' \<rparr>]"
  using leave_broadcasts_old_list [OF example_lobby_exists, of "''alice''" "''c1''"]
    example_lobby_exists
  by (simp add: example_lobby_members remaining_def)

subsection \<open>Sending\<close>

text \<open>
  Claim C9. \<open>sendMessage\<close> on a room that exists makes one transport call, a \<open>newMessage\<close>
  event on \<open>this.server.to(roomId)\<close>, the whole group of the room with nobody excluded, so
  the sender too when it is in the group. The payload holds the supplied \<open>userName\<close> (under
  the key \<open>userId\<close>) and the message, and the state is returned as it was.
\<close>

theorem send_broadcasts_once:
  assumes "map_has rid (rooms g)"
  shows "sendMessage uname rid message client g =
           (g, [Emit (ToRoom rid) ''newMessage'' (PNewMessage uname message)])"
  using assms by (simp add: sendMessage_def)

theorem send_broadcasts_once_witness:
  "map_has ''room1700000000000'' (rooms example_gateway)
   \<and> sendMessage ''alice'' ''room1700000000000'' ''hello'' ''c1'' example_gateway =
       (example_gateway,
        [Emit (ToRoom ''room1700000000000'') ''newMessage'' (PNewMessage ''alice'' ''hello'')])"
  using send_broadcasts_once [OF example_lobby_exists] example_lobby_exists by simp

subsection \<open>Deleting a room\<close>

text \<open>
  Claim C8. \<open>deleteRoom\<close> on a room that exists first sends the \<open>roomDeleted\<close> notice to
  the group of the room, then removes the room from \<open>rooms\<close> and its member list from
  \<open>users\<close> within the one call: in the state the handler leaves, neither map has the room
  identifier, and every other identifier is mapped in both as before. The room list sent
  to all clients afterwards is read from the map the room has already left.
\<close>

theorem delete_removes_room_and_members:
  assumes "map_has rid (rooms g)"
  shows "snd (deleteRoom rid client g) =
           [Emit (ToRoom rid) ''roomDeleted''
              (PRoomDeleted (''Room '' @ rid @ '' has been deleted.'')),
            Emit ToAll ''rooms'' (PRooms (map_values (rooms (fst (deleteRoom rid client g)))))]
         \<and> \<not> map_has rid (rooms (fst (deleteRoom rid client g)))
         \<and> \<not> map_has rid (users (fst (deleteRoom rid client g)))
         \<and> (\<forall>other. other \<noteq> rid \<longrightarrow>
               map_get other (rooms (fst (deleteRoom rid client g))) = map_get other (rooms g)
             \<and> map_get other (users (fst (deleteRoom rid client g))) = map_get other (users g))"
  using assms by (simp add: deleteRoom_def Let_def map_get_delete map_has_def)

theorem delete_removes_room_and_members_witness:
  "map_has ''room1700000000001'' (rooms example_gateway)
   \<and> snd (deleteRoom ''room1700000000001'' ''c2'' example_gateway) =
       [Emit (ToRoom ''room1700000000001'') ''roomDeleted''
          (PRoomDeleted ''Room room1700000000001 has been deleted.''),
        Emit ToAll ''rooms''
          (PRooms [\<lparr> Room.roomId = ''room1700000000000'', roomName = ''Lobby'' \<rparr>])]
   \<and> \<not> map_has ''room1700000000001'' (rooms (fst (deleteRoom ''room1700000000001'' ''c2'' example_gateway)))
   \<and> \<not> map_has ''room1700000000001'' (users (fst (deleteRoom ''room1700000000001'' ''c2'' example_gateway)))
   \<and> map_get ''room1700000000000''
        (rooms (fst (deleteRoom ''room1700000000001'' ''c2'' example_gateway))) =
       Some \<lparr> Room.roomId = ''room1700000000000'', roomName = ''Lobby'' \<rparr>
   \<and> map_get ''room1700000000000''
        (users (fst (deleteRoom ''room1700000000001'' ''c2'' example_gateway))) =
       Some [\<lparr> userId = ''c1'', userName = ''alice'', roomId = ''room1700000000000'' \<rparr>,
             \<lparr> userId = ''c2'', userName = ''bob'', roomId = ''room1700000000000'' \<rparr>]"
proof -
  have a: "map_has ''room1700000000001'' (rooms example_gateway)"
    by (simp add: example_gateway_def map_has_def)
  have b: "map_values (rooms (fst (deleteRoom ''room1700000000001'' ''c2'' example_gateway))) =
             [\<lparr> Room.roomId = ''room1700000000000'', roomName = ''Lobby'' \<rparr>]"
    by (simp add: example_gateway_def handler_defs)
  have c: "map_get ''room1700000000000'' (rooms example_gateway) =
             Some \<lparr> Room.roomId = ''room1700000000000'', roomName = ''Lobby'' \<rparr>"
    "map_get ''room1700000000000'' (users example_gateway) =
       Some [\<lparr> userId = ''c1'', userName = ''alice'', roomId = ''room1700000000000'' \<rparr>,
             \<lparr> userId = ''c2'', userName = ''bob'', roomId = ''room1700000000000'' \<rparr>]"
    by (simp_all add: example_gateway_def)
  from delete_removes_room_and_members [OF a, of "''c2''"] a b c show ?thesis by simp
qed

subsection \<open>Disconnecting\<close>

lemma for_each_room_out:
  "snd (for_each_room client es (m, out)) = out @ concat (map (sweep_notice client) es)"
  by (induction es arbitrary: m out) (auto simp: sweep_notice_def remaining_def Let_def)

lemma for_each_room_get:
  "distinct (map fst es) \<Longrightarrow>
   map_get k (fst (for_each_room client es (m, out))) =
     (case map_get k es of
        None \<Rightarrow> map_get k m
      | Some us \<Rightarrow> if remaining client us = [] then None else Some (remaining client us))"
proof (induction es arbitrary: m out)
  case Nil
  then show ?case by simp
next
  case (Cons e es)
  obtain k0 us0 where e: "e = (k0, us0)" by (cases e)
  from Cons.prems e have fresh: "map_get k0 es = None" and d: "distinct (map fst es)"
    by (auto simp: map_get_None_iff)
  show ?case
  proof (cases "remaining client us0 = []")
    case True
    then have "sweep_room client e (m, out) = (map_delete k0 m, out)"
      by (simp add: e remaining_def)
    with Cons.IH [OF d, of "map_delete k0 m" out] fresh True show ?thesis
      by (auto simp: e map_get_delete split: option.splits)
  next
    case False
    then have "sweep_room client e (m, out) =
        (map_set k0 (remaining client us0) m,
         out @ [Emit (ToRoom k0) ''totalUsers'' (PUsers (remaining client us0))])"
      by (simp add: e remaining_def Let_def)
    with Cons.IH [OF d, of "map_set k0 (remaining client us0) m"] fresh False show ?thesis
      by (auto simp: e map_get_set split: option.splits)
  qed
qed

text \<open>
  Claim C7. \<open>handleDisconnect\<close>, on any state (the keys of \<open>users\<close> being pairwise
  different, as those of a \<open>Map\<close> are): the member list of every room loses exactly the
  members whose \<open>userId\<close> is the disconnected connection's, all other members staying in
  their order; a room whose list is not empty afterwards has that list stored and sent as
  \<open>totalUsers\<close> to its group, one event per such room in the order of the map; a room
  whose list is empty afterwards has no entry in \<open>users\<close> any more; and \<open>rooms\<close> is as it
  was, so the emptied room is still listed.
\<close>

theorem disconnect_sweeps_every_room:
  assumes "map_ok (users g)"
  shows "rooms (fst (handleDisconnect client g)) = rooms g
    \<and> (\<forall>rid. map_get rid (users (fst (handleDisconnect client g))) =
          (case map_get rid (users g) of
             None \<Rightarrow> None
           | Some members \<Rightarrow>
               if remaining client members = [] then None
               else Some (remaining client members)))
    \<and> snd (handleDisconnect client g) =
        concat (map (\<lambda>(rid, members).
                  if remaining client members = [] then []
                  else [Emit (ToRoom rid) ''totalUsers'' (PUsers (remaining client members))])
                (users g))"
proof -
  obtain m out where r: "for_each_room client (users g) (users g, []) = (m, out)"
    by (cases "for_each_room client (users g) (users g, [])")
  have d: "distinct (map fst (users g))" using assms by (simp add: map_ok_def)
  have get: "map_get rid m =
          (case map_get rid (users g) of
             None \<Rightarrow> None
           | Some members \<Rightarrow>
               if remaining client members = [] then None
               else Some (remaining client members))" for rid
    using for_each_room_get [OF d, of rid client "users g" "[]"] r
    by (auto split: option.splits)
  have sn: "sweep_notice client = (\<lambda>(rid, members).
                  if remaining client members = [] then []
                  else [Emit (ToRoom rid) ''totalUsers'' (PUsers (remaining client members))])"
    by (auto simp: sweep_notice_def fun_eq_iff)
  have out: "out = concat (map (sweep_notice client) (users g))"
    using for_each_room_out [of client "users g" "users g" "[]"] r by simp
  show ?thesis
    using get out by (simp add: handleDisconnect_def r sn)
qed

theorem disconnect_sweeps_every_room_witness:
  "map_ok (users example_gateway)
   \<and> rooms (fst (handleDisconnect ''c1'' example_gateway)) = rooms example_gateway
   \<and> map_get ''room1700000000000'' (users (fst (handleDisconnect ''c1'' example_gateway))) =
       Some [\<lparr> userId = ''c2'', userName = ''bob'', roomId = ''room1700000000000'' \<rparr>]
   \<and> map_get ''room1700000000001'' (users (fst (handleDisconnect ''c1'' example_gateway))) = None
   \<and> map_has ''room1700000000001'' (rooms (fst (handleDisconnect ''c1'' example_gateway)))
   \<and> snd (handleDisconnect ''c1'' example_gateway) =
       [Emit (ToRoom ''room1700000000000'') ''totalUsers''
          (PUsers [\<lparr> userId = ''c2'', userName = ''bob'', roomId = ''room1700000000000'' \<rparr>])]"
proof -
  have ok: "map_ok (users example_gateway)"
    by (simp add: example_gateway_def map_ok_def)
  note sweep = disconnect_sweeps_every_room [OF ok, of "''c1''"]
  from sweep have r: "rooms (fst (handleDisconnect ''c1'' example_gateway)) = rooms example_gateway"
    by blast
  from sweep have
    "map_get ''room1700000000000'' (users (fst (handleDisconnect ''c1'' example_gateway))) =
       (case map_get ''room1700000000000'' (users example_gateway) of
             None \<Rightarrow> None
           | Some members \<Rightarrow>
               if remaining ''c1'' members = [] then None
               else Some (remaining ''c1'' members))"
    by blast
  then have l: "map_get ''room1700000000000'' (users (fst (handleDisconnect ''c1'' example_gateway))) =
       Some [\<lparr> userId = ''c2'', userName = ''bob'', roomId = ''room1700000000000'' \<rparr>]"
    by (simp add: example_gateway_def remaining_def)
  from sweep have
    "map_get ''room1700000000001'' (users (fst (handleDisconnect ''c1'' example_gateway))) =
       (case map_get ''room1700000000001'' (users example_gateway) of
             None \<Rightarrow> None
           | Some members \<Rightarrow>
               if remaining ''c1'' members = [] then None
               else Some (remaining ''c1'' members))"
    by blast
  then have g: "map_get ''room1700000000001'' (users (fst (handleDisconnect ''c1'' example_gateway))) = None"
    by (simp add: example_gateway_def remaining_def)
  from sweep have "snd (handleDisconnect ''c1'' example_gateway) =
        concat (map (\<lambda>(rid, members).
                  if remaining ''c1'' members = [] then []
                  else [Emit (ToRoom rid) ''totalUsers'' (PUsers (remaining ''c1'' members))])
                (users example_gateway))"
    by blast
  then have o: "snd (handleDisconnect ''c1'' example_gateway) =
       [Emit (ToRoom ''room1700000000000'') ''totalUsers''
          (PUsers [\<lparr> userId = ''c2'', userName = ''bob'', roomId = ''room1700000000000'' \<rparr>])]"
    by (simp add: example_gateway_def remaining_def)
  have h: "map_has ''room1700000000001'' (rooms example_gateway)"
    by (simp add: example_gateway_def map_has_def)
  from ok r l g o h show ?thesis by simp
qed

subsection \<open>Display names within a room\<close>

lemma names_distinct_set:
  "names_distinct m \<Longrightarrow> distinct (map userName us) \<Longrightarrow> names_distinct (map_set k us m)"
  using set_map_set [of k us m] by (auto simp: names_distinct_def)

lemma names_distinct_delete: "names_distinct m \<Longrightarrow> names_distinct (map_delete k m)"
  using set_map_delete [of k m] by (auto simp: names_distinct_def)

lemma names_distinct_get:
  "names_distinct m \<Longrightarrow> map_get k m = Some us \<Longrightarrow> distinct (map userName us)"
  using map_get_in_set [of k m us] by (fastforce simp: names_distinct_def)

lemma names_distinct_users_or_empty:
  "names_distinct (users g) \<Longrightarrow> distinct (map userName (users_or_empty rid g))"
  by (auto simp: users_or_empty_def split: option.splits dest: names_distinct_get)

lemma names_distinct_sweep:
  "names_distinct es \<Longrightarrow> names_distinct m \<Longrightarrow>
   names_distinct (fst (for_each_room client es (m, out)))"
proof (induction es arbitrary: m out)
  case Nil
  then show ?case by simp
next
  case (Cons e es)
  obtain k0 us0 where e: "e = (k0, us0)" by (cases e)
  from Cons.prems have es: "names_distinct es" and us0: "distinct (map userName us0)"
    by (auto simp: names_distinct_def e)
  obtain m1 out1 where s: "sweep_room client e (m, out) = (m1, out1)"
    by (cases "sweep_room client e (m, out)")
  have "names_distinct m1"
    using s Cons.prems(2) us0
    by (auto simp: e Let_def distinct_map_filter names_distinct_set names_distinct_delete
             split: if_splits)
  with Cons.IH [OF es, of m1 out1] s show ?case by simp
qed

lemma names_distinct_dispatch:
  assumes "names_distinct (users g)"
  shows "names_distinct (users (fst (dispatch e g)))"
proof (cases e)
  case (CreateRoom now name client)
  with assms show ?thesis by (simp add: createRoom_def Let_def)
next
  case (JoinRoom uname rid client)
  from assms have "distinct (map userName (users_or_empty rid g))"
    by (rule names_distinct_users_or_empty)
  with assms JoinRoom show ?thesis
    by (auto simp: joinRoom_def Let_def list_ex_iff intro!: names_distinct_set)
next
  case (DeleteRoom rid client)
  with assms show ?thesis by (simp add: deleteRoom_def Let_def names_distinct_delete)
next
  case (SendMessage uname rid message client)
  with assms show ?thesis by (simp add: sendMessage_def)
next
  case (LeaveRoom rid uname client)
  from assms have "distinct (map userName (users_or_empty rid g))"
    by (rule names_distinct_users_or_empty)
  with assms LeaveRoom show ?thesis
    by (simp add: leaveRoom_def Let_def names_distinct_set distinct_map_filter)
next
  case (Disconnect client)
  obtain m out where r: "for_each_room client (users g) (users g, []) = (m, out)"
    by (cases "for_each_room client (users g) (users g, [])")
  from names_distinct_sweep [OF assms assms, of client "[]"] r Disconnect show ?thesis
    by (simp add: handleDisconnect_def)
next
  case FetchRooms
  with assms show ?thesis by (simp add: triggerFetchAvailableRooms_def)
qed

lemma fst_run_Cons: "fst (run (e # es) g) = fst (run es (fst (dispatch e g)))"
  by (simp split: prod.splits)

lemma snd_run_Cons: "snd (run (e # es) g) = snd (dispatch e g) @ snd (run es (fst (dispatch e g)))"
  by (simp split: prod.splits)

lemma names_distinct_run:
  "names_distinct (users g) \<Longrightarrow> names_distinct (users (fst (run es g)))"
proof (induction es arbitrary: g)
  case Nil
  then show ?case by simp
next
  case (Cons e es)
  from Cons.IH [OF names_distinct_dispatch [OF Cons.prems, of e]] show ?case
    by (simp only: fst_run_Cons)
qed

text \<open>
  Claim C3. In every state the gateway reaches from the state the constructor builds, by
  any sequence of events (create, join, delete, send, leave, disconnect, fetch), the
  display names of the members of any one room are pairwise different.
\<close>

theorem display_names_unique_in_room:
  assumes "map_get rid (users (fst (run es init_gateway))) = Some members"
  shows "distinct (map userName members)"
proof -
  have "names_distinct (users init_gateway)"
    by (simp add: names_distinct_def init_gateway_def)
  then have "names_distinct (users (fst (run es init_gateway)))"
    by (rule names_distinct_run)
  with assms show ?thesis by (rule names_distinct_get [rotated])
qed

theorem display_names_unique_in_room_witness:
  "map_get ''room1700000000000'' (users (fst (run example_events init_gateway))) =
     Some [\<lparr> userId = ''c1'', userName = ''alice'', roomId = ''room1700000000000'' \<rparr>,
           \<lparr> userId = ''c2'', userName = ''bob'', roomId = ''room1700000000000'' \<rparr>]
   \<and> distinct (map userName
        [\<lparr> userId = ''c1'', userName = ''alice'', roomId = ''room1700000000000'' \<rparr>,
         \<lparr> userId = ''c2'', userName = ''bob'', roomId = ''room1700000000000'' \<rparr>])"
proof -
  have a: "map_get ''room1700000000000'' (users (fst (run example_events init_gateway))) =
     Some [\<lparr> userId = ''c1'', userName = ''alice'', roomId = ''room1700000000000'' \<rparr>,
           \<lparr> userId = ''c2'', userName = ''bob'', roomId = ''room1700000000000'' \<rparr>]"
    by (simp add: example_gateway_reached example_gateway_def)
  from a display_names_unique_in_room [OF a] show ?thesis by blast
qed

subsection \<open>The keys of the member map\<close>

text \<open>
  The association list that stands for \<open>users\<close> has pairwise different keys in every
  state the gateway reaches, as the \<open>Map\<close> it stands for.
\<close>

lemma keys_map_set: "fst ` set (map_set k v m) = insert k (fst ` set m)"
  by (induction m) (force split: if_splits)+

lemma keys_map_delete: "fst ` set (map_delete k m) = fst ` set m - {k}"
  by (induction m) (force split: if_splits)+

lemma map_ok_set: "map_ok m \<Longrightarrow> map_ok (map_set k v m)"
  unfolding map_ok_def
proof (induction m)
  case Nil
  then show ?case by simp
next
  case (Cons e m)
  then show ?case
    using keys_map_set [of k v m] by (cases e) auto
qed

lemma map_ok_delete: "map_ok m \<Longrightarrow> map_ok (map_delete k m)"
  unfolding map_ok_def
proof (induction m)
  case Nil
  then show ?case by simp
next
  case (Cons e m)
  then show ?case
    using keys_map_delete [of k m] by (cases e) auto
qed

lemma map_ok_sweep: "map_ok m \<Longrightarrow> map_ok (fst (for_each_room client es (m, out)))"
  by (induction es arbitrary: m out) (auto simp: Let_def map_ok_set map_ok_delete)

lemma map_ok_dispatch:
  assumes "map_ok (users g)"
  shows "map_ok (users (fst (dispatch e g)))"
proof (cases e)
  case (Disconnect client)
  obtain m out where r: "for_each_room client (users g) (users g, []) = (m, out)"
    by (cases "for_each_room client (users g) (users g, [])")
  from map_ok_sweep [OF assms, of client "users g" "[]"] r Disconnect show ?thesis
    by (simp add: handleDisconnect_def)
qed (use assms in \<open>simp_all add: createRoom_def joinRoom_def deleteRoom_def sendMessage_def
       leaveRoom_def triggerFetchAvailableRooms_def Let_def map_ok_set map_ok_delete\<close>)

lemma map_ok_run: "map_ok (users g) \<Longrightarrow> map_ok (users (fst (run es g)))"
proof (induction es arbitrary: g)
  case Nil
  then show ?case by simp
next
  case (Cons e es)
  from Cons.IH [OF map_ok_dispatch [OF Cons.prems, of e]] show ?case
    by (simp only: fst_run_Cons)
qed

lemma reachable_users_map_ok: "map_ok (users (fst (run es init_gateway)))"
  by (rule map_ok_run) (simp add: init_gateway_def map_ok_def)

subsection \<open>Room identifiers\<close>

text \<open>The decimal rendering of a number determines the number.\<close>

lemma digit_char_inj: "a < 10 \<Longrightarrow> b < 10 \<Longrightarrow> digit_char a = digit_char b \<Longrightarrow> a = b"
proof -
  assume "a < 10" "b < 10"
  then have "a \<in> {0,1,2,3,4,5,6,7,8,9}" "b \<in> {0,1,2,3,4,5,6,7,8,9}" by auto
  moreover assume "digit_char a = digit_char b"
  ultimately show "a = b" by (auto simp: digit_char_def)
qed

lemma digit_char_not_minus: "d < 10 \<Longrightarrow> digit_char d \<noteq> CHR ''-''"
proof -
  assume "d < 10"
  then have "d \<in> {0,1,2,3,4,5,6,7,8,9}" by auto
  then show ?thesis by (auto simp: digit_char_def)
qed

lemma nat_digits_not_Nil: "nat_digits n \<noteq> []"
  by (subst nat_digits.simps) simp

lemma hd_nat_digits: "hd (nat_digits n) \<noteq> CHR ''-''"
proof (induction n rule: nat_digits.induct)
  case (1 n)
  show ?case
  proof (cases "n < 10")
    case True
    then show ?thesis by (subst nat_digits.simps) (simp add: digit_char_not_minus)
  next
    case False
    with 1 show ?thesis
      by (subst nat_digits.simps) (simp add: nat_digits_not_Nil)
  qed
qed

lemma nat_digits_inj: "nat_digits a = nat_digits b \<Longrightarrow> a = b"
proof (induction a arbitrary: b rule: nat_digits.induct)
  case (1 n)
  show ?case
  proof (cases "n < 10")
    case small: True
    show ?thesis
    proof (cases "b < 10")
      case True
      with small "1.prems" show ?thesis
        by (simp add: nat_digits.simps [of n] nat_digits.simps [of b] digit_char_inj)
    next
      case False
      with small "1.prems" nat_digits_not_Nil [of "b div 10"] show ?thesis
        by (auto simp: nat_digits.simps [of n] nat_digits.simps [of b])
    qed
  next
    case big: False
    show ?thesis
    proof (cases "b < 10")
      case True
      with big "1.prems" show ?thesis
        by (simp add: nat_digits.simps [of n] nat_digits.simps [of b] nat_digits_not_Nil)
    next
      case False
      with big "1.prems" have
        "nat_digits (n div 10) = nat_digits (b div 10)"
        "digit_char (n mod 10) = digit_char (b mod 10)"
        by (simp_all add: nat_digits.simps [of n] nat_digits.simps [of b])
      with "1.IH" [OF big] have "n div 10 = b div 10" "n mod 10 = b mod 10"
        by (auto intro: digit_char_inj)
      then show ?thesis by (metis div_mult_mod_eq)
    qed
  qed
qed

lemma number_to_string_inj: "number_to_string i = number_to_string j \<Longrightarrow> i = j"
proof -
  assume eq: "number_to_string i = number_to_string j"
  have neg: "hd (number_to_string k) = CHR ''-'' \<longleftrightarrow> k < 0" for k
    using hd_nat_digits [of "nat k"] by (simp add: number_to_string_def)
  from eq neg [of i] neg [of j] have same: "i < 0 \<longleftrightarrow> j < 0" by simp
  show "i = j"
  proof (cases "i < 0")
    case True
    with same eq have "nat (- i) = nat (- j)"
      by (auto simp: number_to_string_def dest: nat_digits_inj)
    with True same show ?thesis by simp
  next
    case False
    with same eq have "nat i = nat j"
      by (auto simp: number_to_string_def dest: nat_digits_inj)
    with False same show ?thesis by simp
  qed
qed

lemma generated_ids_append: "generated_ids (a @ b) = generated_ids a @ generated_ids b"
  by (induction a rule: generated_ids.induct) simp_all

lemma generated_ids_sweep:
  "generated_ids (snd (for_each_room client es (m, out))) = generated_ids out"
  by (induction es arbitrary: m out) (auto simp: Let_def generated_ids_append)

lemma generated_ids_dispatch:
  "generated_ids (snd (dispatch e g)) =
     map (\<lambda>now. ''room'' @ number_to_string now) (clock_readings [e])"
proof (cases e)
  case (Disconnect client)
  obtain m out where r: "for_each_room client (users g) (users g, []) = (m, out)"
    by (cases "for_each_room client (users g) (users g, [])")
  from generated_ids_sweep [of client "users g" "users g" "[]"] r Disconnect show ?thesis
    by (simp add: handleDisconnect_def)
qed (simp_all add: createRoom_def joinRoom_def deleteRoom_def sendMessage_def leaveRoom_def
       triggerFetchAvailableRooms_def room_missing_def Let_def)

lemma clock_readings_Cons: "clock_readings (e # es) = clock_readings [e] @ clock_readings es"
  by (cases e) simp_all

lemma generated_ids_run:
  "generated_ids (snd (run es g)) = map (\<lambda>now. ''room'' @ number_to_string now) (clock_readings es)"
proof (induction es arbitrary: g)
  case Nil
  then show ?case by simp
next
  case (Cons e es)
  have "generated_ids (snd (run (e # es) g)) =
          generated_ids (snd (dispatch e g)) @ generated_ids (snd (run es (fst (dispatch e g))))"
    by (simp only: snd_run_Cons generated_ids_append)
  also have "\<dots> = map (\<lambda>now. ''room'' @ number_to_string now) (clock_readings [e])
                 @ map (\<lambda>now. ''room'' @ number_to_string now) (clock_readings es)"
    by (simp only: generated_ids_dispatch Cons.IH)
  also have "\<dots> = map (\<lambda>now. ''room'' @ number_to_string now) (clock_readings (e # es))"
    by (subst clock_readings_Cons [of e es]) simp
  finally show ?case .
qed

text \<open>
  Claim C1, as amended. \<open>createRoom\<close> names the room \<open>room\<close> followed by the clock reading
  of the call, and nothing else enters the identifier. So over any sequence of events on
  one gateway, started in any state, the identifiers generated by the \<open>createRoom\<close>
  calls are pairwise different exactly when the clock readings of those calls are pairwise
  different.
\<close>

theorem room_ids_distinct_iff_clock_distinct:
  "distinct (generated_ids (snd (run es g))) = distinct (clock_readings es)"
proof -
  have "inj_on (\<lambda>now. ''room'' @ number_to_string now) (set (clock_readings es))"
    by (auto simp: inj_on_def dest: number_to_string_inj)
  then show ?thesis
    by (simp add: generated_ids_run distinct_map)
qed

text \<open>
  Claim C1 as stated fails: two \<open>createRoom\<close> calls within one millisecond generate the
  same identifier.
\<close>

theorem room_id_repeats_counterexample:
  "\<not> distinct (generated_ids (snd (run
       [CreateRoom 1700000000000 ''Lobby'' ''c1'', CreateRoom 1700000000000 ''Games'' ''c2'']
       init_gateway)))"
  by (simp add: handler_defs)

subsection \<open>How many members one connection has in a room\<close>

lemma users_or_empty_set:
  "users_or_empty rid (g \<lparr> users := map_set rid us (users g) \<rparr>) = us"
  by (simp add: users_or_empty_def map_get_set)

lemma members_of_connection_le_1:
  "distinct (map userId us) \<Longrightarrow> length (members_of_connection client us) \<le> 1"
  by (induction us) (auto simp: members_of_connection_def filter_empty_conv image_iff)

lemma rejoin_members:
  "users_or_empty ''room1700000000000'' (fst (run rejoin_events init_gateway)) =
     [\<lparr> userId = ''c1'', userName = ''alice'', roomId = ''room1700000000000'' \<rparr>,
      \<lparr> userId = ''c2'', userName = ''bob'', roomId = ''room1700000000000'' \<rparr>,
      \<lparr> userId = ''c1'', userName = ''ally'', roomId = ''room1700000000000'' \<rparr>]"
  by (simp add: rejoin_events_def example_events_def handler_defs)

text \<open>
  Claim C5, as amended. \<open>leaveRoom\<close> on a room that exists removes from the member list
  of the room exactly the members whose \<open>userId\<close> is the requester's connection identity,
  every one of them, and keeps the others in their order; the list gets shorter by the
  number of those members. That number is at most one when the connection identities in
  the list are pairwise different.
\<close>

theorem leave_removes_connection_members:
  assumes "map_has rid (rooms g)"
  shows "users_or_empty rid (fst (leaveRoom rid uname client g)) =
           remaining client (users_or_empty rid g)
       \<and> length (users_or_empty rid g) =
           length (users_or_empty rid (fst (leaveRoom rid uname client g)))
           + length (members_of_connection client (users_or_empty rid g))
       \<and> (distinct (map userId (users_or_empty rid g)) \<longrightarrow>
            length (members_of_connection client (users_or_empty rid g)) \<le> 1)"
proof -
  have a: "users_or_empty rid (fst (leaveRoom rid uname client g)) =
           remaining client (users_or_empty rid g)"
    using assms by (simp add: leaveRoom_def Let_def users_or_empty_set remaining_def)
  have b: "length us = length (remaining client us) + length (members_of_connection client us)"
    for us
    using sum_length_filter_compl [of "\<lambda>user. userId user = client" us]
    by (simp add: remaining_def members_of_connection_def)
  from a b [of "users_or_empty rid g"] members_of_connection_le_1 show ?thesis by simp
qed

theorem leave_removes_connection_members_witness:
  "map_has ''room1700000000000'' (rooms example_gateway)
   \<and> distinct (map userId (users_or_empty ''room1700000000000'' example_gateway))
   \<and> users_or_empty ''room1700000000000''
        (fst (leaveRoom ''room1700000000000'' ''alice'' ''c1'' example_gateway)) =
       [\<lparr> userId = ''c2'', userName = ''bob'', roomId = ''room1700000000000'' \<rparr>]
   \<and> length (members_of_connection ''c1''
        (users_or_empty ''room1700000000000'' example_gateway)) \<le> 1"
proof -
  have d: "distinct (map userId (users_or_empty ''room1700000000000'' example_gateway))"
    by (simp add: example_lobby_members)
  from leave_removes_connection_members [OF example_lobby_exists, of "''alice''" "''c1''"]
    example_lobby_exists d
  show ?thesis by (simp add: example_lobby_members remaining_def)
qed

text \<open>
  Claim C5 as stated fails: after connection \<open>c1\<close> has joined a room under two display
  names, one \<open>leaveRoom\<close> call of \<open>c1\<close> takes the member list from three members to one.
\<close>

theorem leave_removes_two_counterexample:
  "map_has ''room1700000000000'' (rooms (fst (run rejoin_events init_gateway)))
   \<and> length (users_or_empty ''room1700000000000'' (fst (run rejoin_events init_gateway))) = 3
   \<and> length (users_or_empty ''room1700000000000''
        (fst (leaveRoom ''room1700000000000'' ''alice'' ''c1''
               (fst (run rejoin_events init_gateway))))) = 1"
  by (simp add: rejoin_events_def example_events_def handler_defs)

text \<open>
  Claim C10. \<open>joinRoom\<close> looks at display names only: on a room that exists, with a
  display name no member has, it appends a member for the requester's connection to the
  members that connection already has in the room. So some sequence of events leads to a
  room whose member list holds one connection identity more than once.
\<close>

theorem connection_joins_room_twice:
  "(map_has rid (rooms g) \<and> uname \<notin> userName ` set (users_or_empty rid g) \<longrightarrow>
      members_of_connection client (users_or_empty rid (fst (joinRoom uname rid client g))) =
        members_of_connection client (users_or_empty rid g)
        @ [\<lparr> userId = client, userName = uname, roomId = rid \<rparr>])
   \<and> (\<exists>es r c. 1 < length (members_of_connection c
                       (users_or_empty r (fst (run es init_gateway)))))"
proof -
  have "1 < length (members_of_connection ''c1''
              (users_or_empty ''room1700000000000'' (fst (run rejoin_events init_gateway))))"
    by (simp add: rejoin_members members_of_connection_def)
  then have "\<exists>es r c. 1 < length (members_of_connection c
                       (users_or_empty r (fst (run es init_gateway))))"
    by blast
  then show ?thesis
    by (auto simp: joinRoom_def Let_def list_ex_iff users_or_empty_set members_of_connection_def)
qed

theorem connection_joins_room_twice_witness:
  "map_has ''room1700000000000'' (rooms example_gateway)
   \<and> ''ally'' \<notin> userName ` set (users_or_empty ''room1700000000000'' example_gateway)
   \<and> members_of_connection ''c1'' (users_or_empty ''room1700000000000''
        (fst (joinRoom ''ally'' ''room1700000000000'' ''c1'' example_gateway))) =
       [\<lparr> userId = ''c1'', userName = ''alice'', roomId = ''room1700000000000'' \<rparr>,
        \<lparr> userId = ''c1'', userName = ''ally'', roomId = ''room1700000000000'' \<rparr>]"
proof -
  have b: "''ally'' \<notin> userName ` set (users_or_empty ''room1700000000000'' example_gateway)"
    by (simp add: example_lobby_members)
  have c: "members_of_connection ''c1'' (users_or_empty ''room1700000000000'' example_gateway) =
             [\<lparr> userId = ''c1'', userName = ''alice'', roomId = ''room1700000000000'' \<rparr>]"
    by (simp add: example_lobby_members members_of_connection_def)
  from connection_joins_room_twice
         [of "''room1700000000000''" example_gateway "''ally''" "''c1''"]
    example_lobby_exists b c
  show ?thesis by simp
qed

end
